theory Spec2Isabelle
  imports Complex_Main
begin

section \<open>The virtual model of lmms-eval: answers read from the dataset\<close>

text \<open>
  The development embeds \<^verbatim>\<open>src/lmms_eval/models/simple/virtual_model.py\<close>:
  the class \<^verbatim>\<open>VirtualModel\<close>, which answers a generation request with the
  answer already stored in the request's document. Exceptions are values (\<open>Inl\<close>),
  the logger is the list of records an operation emits, and the instance is a record
  that the mutating operations return updated.
\<close>

subsection \<open>Python values, exceptions and diagnostics\<close>

text \<open>
  The elements of a request's argument tuple. The code tests the task for membership in a
  dictionary and indexes a dictionary and a list with the split and the document id, so a
  value is told apart by what these operations do with it: \<open>PyInt\<close> indexes a list,
  and so does \<open>PyIndex\<close>, an object other than a plain \<^verbatim>\<open>int\<close> that has
  \<^verbatim>\<open>__index__\<close> (a bool, a numpy integer), with the index it gives; \<open>PySlice\<close> is
  \<^verbatim>\<open>slice(start, stop, step)\<close> with \<open>None\<close> for a bound left out, hashable as it
  is from Python 3.12 on; \<open>PyStr\<close> can be a key of the string-keyed dictionaries;
  \<open>PyObj\<close> is any other hashable object and \<open>PyUnhashable\<close> any other object
  without a hash (a dict, a list), both named by their text, which is what
  \<^verbatim>\<open>str()\<close> gives for them.
\<close>

datatype pyval =
    PyNone
  | PyInt int
  | PyIndex int
  | PySlice "int option" "int option" "int option"
  | PyStr string
  | PyObj string
  | PyUnhashable string

text \<open>
  Exceptions. \<open>Raised\<close> is an exception of class \<^verbatim>\<open>Exception\<close> raised by foreign
  code (\<^verbatim>\<open>doc_to_answer\<close>, a \<^verbatim>\<open>__str__\<close> method), with its message;
  \<open>RaisedUnprintable\<close> is one whose own \<^verbatim>\<open>__str__\<close> raises the exception given;
  \<open>BaseRaised\<close> is an exception outside class \<^verbatim>\<open>Exception\<close>
  (\<^verbatim>\<open>SystemExit\<close>, \<^verbatim>\<open>KeyboardInterrupt\<close>, \<^verbatim>\<open>GeneratorExit\<close>), by the name
  of its class.
\<close>

datatype exn =
    KeyError pyval
  | IndexError
  | TypeError
  | ValueError
  | NotImplementedError string
  | Raised string
  | RaisedUnprintable exn
  | BaseRaised string

text \<open>\<^verbatim>\<open>isinstance(e, Exception)\<close>, the test of \<^verbatim>\<open>except Exception\<close>.\<close>

fun is_Exception :: "exn \<Rightarrow> bool" where
  "is_Exception (BaseRaised c) = False"
| "is_Exception e = True"

text \<open>The exception that \<^verbatim>\<open>str(e)\<close> raises, if it raises one.\<close>

fun str_raises :: "exn \<Rightarrow> exn option" where
  "str_raises (RaisedUnprintable e) = Some e"
| "str_raises e = None"

text \<open>
  An object as \<^verbatim>\<open>str()\<close> sees it: a string is its own conversion, any other object
  is the outcome of its \<^verbatim>\<open>__str__\<close>, a text or an exception.
\<close>

datatype pyobj =
    Str string
  | Obj "exn + string"

fun py_str :: "pyobj \<Rightarrow> exn + string" where
  "py_str (Str s) = Inr s"
| "py_str (Obj r) = r"

text \<open>
  What \<^verbatim>\<open>doc_to_answer\<close> returns, told apart as the code does: \<^verbatim>\<open>None\<close>,
  an instance of \<^verbatim>\<open>list\<close>, or anything else. Of the other values a tuple is kept
  apart, with its elements and the outcome of \<^verbatim>\<open>str()\<close> on it: it is an ordered
  sequence and no instance of \<^verbatim>\<open>list\<close>.
\<close>

datatype answer =
    AnswerNone
  | AnswerList "pyobj list"
  | AnswerTuple "pyobj list" "exn + string"
  | AnswerOther pyobj

text \<open>
  A log record is its level and its message; a message is the template of the source's
  f-string with the values interpolated into it.
\<close>

datatype level = INFO | WARNING | ERROR

datatype message =
    Initialized
  | UsesPreexistingAnswers
  | LoadedTaskInstances nat
  | UnexpectedArgumentsLength nat
  | UnknownRequestFormat string
  | TaskNotFound pyval "string list"
  | AnswerIsNone pyval pyval
  | ErrorInDocToAnswer pyval pyval exn

type_synonym log_record = "level \<times> message"

subsection \<open>Requests, tasks and the instance\<close>

text \<open>
  A request has an attribute \<^verbatim>\<open>arguments\<close> that is a sized sequence (a tuple, as
  \<^verbatim>\<open>Instance\<close> declares it), or one that has no \<^verbatim>\<open>len()\<close> (\<^verbatim>\<open>None\<close>, a
  number), or it has no such attribute; in the last two cases it is known by the name of
  the type of the attribute or of the request.
\<close>

datatype request =
    Instance "pyval list"
  | UnsizedArguments string
  | NoArguments string

text \<open>
  What indexing a list of documents gives: one document for an index, a list of documents
  for a slice.
\<close>

datatype 'd item =
    Row 'd
  | Rows "'d list"

text \<open>
  A task owns a dataset, a dictionary from split names to lists of documents, and the
  function \<^verbatim>\<open>doc_to_answer\<close>, which may raise. Dictionaries are association lists in
  insertion order, since the code lists the keys of the registry.
\<close>

record 'd Task =
  dataset :: "(string \<times> 'd list) list"
  doc_to_answer :: "'d item \<Rightarrow> exn + answer"

type_synonym 'd task_dict = "(string \<times> 'd Task) list"

record 'd VirtualModel =
  priv_batch_size :: int
  priv_rank :: int
  priv_world_size :: int
  priv_parent_tasks :: "'d task_dict"

subsection \<open>Dictionary and list access\<close>

text \<open>\<^verbatim>\<open>list(d.keys())\<close>\<close>

definition keys :: "(string \<times> 'v) list \<Rightarrow> string list" where
  "keys d = map fst d"

text \<open>\<^verbatim>\<open>k in d\<close>: hashing an unhashable key raises \<^verbatim>\<open>TypeError\<close>.\<close>

fun dict_contains :: "(string \<times> 'v) list \<Rightarrow> pyval \<Rightarrow> exn + bool" where
  "dict_contains d (PyStr s) = Inr (s \<in> set (keys d))"
| "dict_contains d (PyUnhashable u) = Inl TypeError"
| "dict_contains d k = Inr False"

text \<open>\<^verbatim>\<open>d[k]\<close>: a missing key raises \<^verbatim>\<open>KeyError\<close>.\<close>

fun dict_getitem :: "(string \<times> 'v) list \<Rightarrow> pyval \<Rightarrow> exn + 'v" where
  "dict_getitem d (PyStr s) =
     (case map_of d s of None \<Rightarrow> Inl (KeyError (PyStr s)) | Some v \<Rightarrow> Inr v)"
| "dict_getitem d (PyUnhashable u) = Inl TypeError"
| "dict_getitem d k = Inl (KeyError k)"

text \<open>
  \<^verbatim>\<open>xs[i]\<close> for an index: a negative index counts from the end, an index out of
  range raises \<^verbatim>\<open>IndexError\<close>.
\<close>

definition list_index :: "'a list \<Rightarrow> int \<Rightarrow> exn + 'a" where
  "list_index xs i =
     (let n = int (length xs); j = (if i < 0 then i + n else i)
      in if 0 \<le> j \<and> j < n then Inr (xs ! nat j) else Inl IndexError)"

text \<open>
  \<^verbatim>\<open>xs[start:stop:step]\<close>: a bound that is given is counted from the end when
  negative and clipped to the list, a bound left out is the end of the list in the
  direction of the step, and a step of zero raises \<^verbatim>\<open>ValueError\<close>.
\<close>

definition slice_bound :: "int \<Rightarrow> int \<Rightarrow> int \<Rightarrow> int" where
  "slice_bound n step v =
     (if v < 0 then (if v + n < 0 then (if step < 0 then - 1 else 0) else v + n)
      else if v \<ge> n then (if step < 0 then n - 1 else n)
      else v)"

definition list_slice ::
  "'a list \<Rightarrow> int option \<Rightarrow> int option \<Rightarrow> int option \<Rightarrow> exn + 'a list" where
  "list_slice xs start stop step =
     (let n = int (length xs);
          st = (case step of None \<Rightarrow> 1 | Some s \<Rightarrow> s)
      in if st = 0 then Inl ValueError
         else
           (let lo = (case start of
                        None \<Rightarrow> (if st < 0 then n - 1 else 0)
                      | Some v \<Rightarrow> slice_bound n st v);
                hi = (case stop of
                        None \<Rightarrow> (if st < 0 then - 1 else n)
                      | Some v \<Rightarrow> slice_bound n st v);
                len = (if st < 0
                       then (if hi < lo then (lo - hi - 1) div (- st) + 1 else 0)
                       else (if lo < hi then (hi - lo - 1) div st + 1 else 0))
            in Inr (map (\<lambda>k. xs ! nat (lo + int k * st)) [0..<nat len])))"

text \<open>
  \<^verbatim>\<open>xs[k]\<close>: a key that is neither an index nor a slice raises \<^verbatim>\<open>TypeError\<close>.
\<close>

fun list_getitem :: "'a list \<Rightarrow> pyval \<Rightarrow> exn + 'a item" where
  "list_getitem xs (PyInt i) = map_sum id Row (list_index xs i)"
| "list_getitem xs (PyIndex i) = map_sum id Row (list_index xs i)"
| "list_getitem xs (PySlice start stop step) = map_sum id Rows (list_slice xs start stop step)"
| "list_getitem xs k = Inl TypeError"

subsection \<open>The operations of \<^verbatim>\<open>VirtualModel\<close>\<close>

text \<open>
  \<^verbatim>\<open>__init__(self, batch_size=1, **kwargs)\<close>: the keyword arguments are not read,
  and the four assignments after the call of the base class's constructor decide the
  attributes.
\<close>

definition init :: "int \<Rightarrow> (string \<times> pyval) list \<Rightarrow> 'd VirtualModel \<times> log_record list" where
  "init batch_size kwargs =
     (\<lparr>priv_batch_size = batch_size, priv_rank = 0, priv_world_size = 1,
       priv_parent_tasks = []\<rparr>,
      [(INFO, Initialized), (INFO, UsesPreexistingAnswers)])"

definition set_parent_tasks ::
  "'d VirtualModel \<Rightarrow> 'd task_dict \<Rightarrow> 'd VirtualModel \<times> log_record list" where
  "set_parent_tasks self task_dict =
     (self\<lparr>priv_parent_tasks := task_dict\<rparr>,
      [(INFO, LoadedTaskInstances (length task_dict))])"

text \<open>
  The body of the \<^verbatim>\<open>try\<close> statement of \<^verbatim>\<open>generate_until\<close>: the string it
  appends to the results, or the exception raised in it, and the records logged.
\<close>

definition try_block ::
  "'d Task \<Rightarrow> 'd item \<Rightarrow> pyval \<Rightarrow> pyval \<Rightarrow> (exn + string) \<times> log_record list" where
  "try_block belong_to_task doc doc_id task =
     (case doc_to_answer belong_to_task doc of
        Inl e \<Rightarrow> (Inl e, [])
      | Inr AnswerNone \<Rightarrow> (py_str (Str ''''), [(WARNING, AnswerIsNone doc_id task)])
      | Inr (AnswerList xs) \<Rightarrow>
          (py_str (if length xs > 0 then xs ! 0 else Str ''''), [])
      | Inr (AnswerTuple xs r) \<Rightarrow> (r, [])
      | Inr (AnswerOther v) \<Rightarrow> (py_str v, []))"

text \<open>
  The clause \<^verbatim>\<open>except Exception as e\<close>, for an exception raised in the
  \<^verbatim>\<open>try\<close> statement after the records \<open>lg\<close>: an exception outside class
  \<^verbatim>\<open>Exception\<close> is not caught; the message of the error record is built from
  \<^verbatim>\<open>str(e)\<close> before anything is appended, so an exception raised there leaves the
  handler; otherwise the record is logged and the empty string appended.
\<close>

definition except_clause ::
  "exn \<Rightarrow> log_record list \<Rightarrow> pyval \<Rightarrow> pyval \<Rightarrow> (exn + string) \<times> log_record list" where
  "except_clause e lg doc_id task =
     (if is_Exception e then
        (case str_raises e of
           Some e' \<Rightarrow> (Inl e', lg)
         | None \<Rightarrow> (Inr '''', lg @ [(ERROR, ErrorInDocToAnswer doc_id task e)]))
      else (Inl e, lg))"

text \<open>
  One iteration of the loop of \<^verbatim>\<open>generate_until\<close>: the string appended for the
  request, or the exception that leaves the loop, and the records logged. On an attribute
  \<^verbatim>\<open>arguments\<close> without a length, \<^verbatim>\<open>len(args)\<close> raises \<^verbatim>\<open>TypeError\<close>.
\<close>

definition generate_until_body ::
  "'d task_dict \<Rightarrow> request \<Rightarrow> (exn + string) \<times> log_record list" where
  "generate_until_body parent_tasks request =
     (case request of
        Instance args \<Rightarrow>
          if length args = 6 then
            (let doc_id = args ! 3; task = args ! 4; split = args ! 5 in
             case dict_contains parent_tasks task of
               Inl e \<Rightarrow> (Inl e, [])
             | Inr False \<Rightarrow> (Inr '''', [(ERROR, TaskNotFound task (keys parent_tasks))])
             | Inr True \<Rightarrow>
                (case dict_getitem parent_tasks task of
                   Inl e \<Rightarrow> (Inl e, [])
                 | Inr belong_to_task \<Rightarrow>
                    (case dict_getitem (dataset belong_to_task) split of
                       Inl e \<Rightarrow> (Inl e, [])
                     | Inr docs \<Rightarrow>
                        (case list_getitem docs doc_id of
                           Inl e \<Rightarrow> (Inl e, [])
                         | Inr doc \<Rightarrow>
                            (case try_block belong_to_task doc doc_id task of
                               (Inr s, lg) \<Rightarrow> (Inr s, lg)
                             | (Inl e, lg) \<Rightarrow> except_clause e lg doc_id task)))))
          else (Inr '''', [(ERROR, UnexpectedArgumentsLength (length args))])
      | UnsizedArguments ty \<Rightarrow> (Inl TypeError, [])
      | NoArguments ty \<Rightarrow> (Inr '''', [(ERROR, UnknownRequestFormat ty)]))"

text \<open>
  The loop, with the list \<^verbatim>\<open>results\<close> and the log so far: an exception leaves it
  with no result, the end of the requests returns \<^verbatim>\<open>results\<close>.
\<close>

fun generate_until_loop ::
  "'d task_dict \<Rightarrow> request list \<Rightarrow> string list \<Rightarrow> log_record list
     \<Rightarrow> (exn + string list) \<times> log_record list" where
  "generate_until_loop parent_tasks [] results lg = (Inr results, lg)"
| "generate_until_loop parent_tasks (request # requests) results lg =
     (case generate_until_body parent_tasks request of
        (Inl e, lg') \<Rightarrow> (Inl e, lg @ lg')
      | (Inr s, lg') \<Rightarrow>
          generate_until_loop parent_tasks requests (results @ [s]) (lg @ lg'))"

definition generate_until ::
  "'d VirtualModel \<Rightarrow> request list \<Rightarrow> (exn + string list) \<times> log_record list" where
  "generate_until self requests =
     generate_until_loop (priv_parent_tasks self) requests [] []"

definition generate_until_multi_round ::
  "'d VirtualModel \<Rightarrow> request list \<Rightarrow> (exn + string list) \<times> log_record list" where
  "generate_until_multi_round self requests = generate_until self requests"

definition loglikelihood ::
  "'d VirtualModel \<Rightarrow> request list \<Rightarrow> (exn + (real \<times> bool) list) \<times> log_record list" where
  "loglikelihood self requests =
     (Inl (NotImplementedError
        ''loglikelihood is not supported in virtual_model mode. This mode only supports generation tasks.''),
      [])"

definition batch_size :: "'d VirtualModel \<Rightarrow> int" where
  "batch_size self = priv_batch_size self"

definition rank :: "'d VirtualModel \<Rightarrow> int" where
  "rank self = priv_rank self"

definition world_size :: "'d VirtualModel \<Rightarrow> int" where
  "world_size self = priv_world_size self"

text \<open>
  A call of an operation, and the instance after it. Only \<^verbatim>\<open>set_parent_tasks\<close>
  assigns an attribute of \<^verbatim>\<open>self\<close>.
\<close>

datatype 'd call =
    SetParentTasks "'d task_dict"
  | GenerateUntil "request list"
  | GenerateUntilMultiRound "request list"
  | Loglikelihood "request list"
  | GetBatchSize
  | GetRank
  | GetWorldSize

fun after_call :: "'d VirtualModel \<Rightarrow> 'd call \<Rightarrow> 'd VirtualModel" where
  "after_call self (SetParentTasks task_dict) = fst (set_parent_tasks self task_dict)"
| "after_call self c = self"

subsection \<open>A configured instance for the examples\<close>

text \<open>
  A task whose documents are the outcomes of \<^verbatim>\<open>doc_to_answer\<close> themselves: split
  \<^verbatim>\<open>test\<close> holds five documents, answered by a list, an empty list,
  \<^verbatim>\<open>None\<close>, the string \<^verbatim>\<open>cat\<close> and an exception. The instance is built by
  the constructor and wired to the registry that names this task \<^verbatim>\<open>T\<close>. Its
  \<^verbatim>\<open>doc_to_answer\<close> gives the outcome stored in a document and raises on a list of
  documents.
\<close>

definition stored_outcome :: "(exn + answer) item \<Rightarrow> exn + answer" where
  "stored_outcome doc =
     (case doc of Row outcome \<Rightarrow> outcome | Rows docs \<Rightarrow> Inl (Raised ''a list of documents''))"

definition stored_answers :: "(exn + answer) Task" where
  "stored_answers =
     \<lparr>dataset =
        [(''test'',
          [Inr (AnswerList [Str ''cat'', Str ''dog'']),
           Inr (AnswerList []),
           Inr AnswerNone,
           Inr (AnswerOther (Str ''cat'')),
           Inl (Raised ''boom'')])],
      doc_to_answer = stored_outcome\<rparr>"

definition registry_T :: "(exn + answer) task_dict" where
  "registry_T = [(''T'', stored_answers)]"

definition model_T :: "(exn + answer) VirtualModel" where
  "model_T = fst (set_parent_tasks (fst (init 1 [])) registry_T)"

text \<open>
  A second task, \<^verbatim>\<open>F\<close>, of the same kind: its three documents are answered by the
  tuple \<^verbatim>\<open>('cat', 'dog')\<close>, by \<^verbatim>\<open>KeyboardInterrupt\<close> and by an exception of
  class \<^verbatim>\<open>Exception\<close> whose \<^verbatim>\<open>__str__\<close> raises.
\<close>

definition stored_faults :: "(exn + answer) Task" where
  "stored_faults =
     \<lparr>dataset =
        [(''test'',
          [Inr (AnswerTuple [Str ''cat'', Str ''dog''] (Inr ''('cat', 'dog')'')),
           Inl (BaseRaised ''KeyboardInterrupt''),
           Inl (RaisedUnprintable (Raised ''no text''))])],
      doc_to_answer = stored_outcome\<rparr>"

definition registry_F :: "(exn + answer) task_dict" where
  "registry_F = [(''F'', stored_faults)]"

definition model_F :: "(exn + answer) VirtualModel" where
  "model_F = fst (set_parent_tasks (fst (init 1 [])) registry_F)"

definition request_for :: "int \<Rightarrow> string \<Rightarrow> string \<Rightarrow> request" where
  "request_for doc_id task split =
     Instance [PyStr ''ctx'', PyUnhashable ''gen_kwargs'', PyObj ''doc_to_visual'',
               PyInt doc_id, PyStr task, PyStr split]"

section \<open>Properties\<close>

subsection \<open>Dictionary access and the loop\<close>

lemmas example_defs =
  model_T_def registry_T_def stored_answers_def model_F_def registry_F_def stored_faults_def
  stored_outcome_def request_for_def init_def set_parent_tasks_def
  generate_until_def generate_until_body_def try_block_def except_clause_def
  list_index_def keys_def

lemma dict_getitem_contains:
  "dict_getitem d k = Inr v \<Longrightarrow> dict_contains d k = Inr True"
  by (cases k)
     (auto simp: keys_def split: option.splits dest: map_of_SomeD intro: rev_image_eqI)

text \<open>The results and the log only grow: the loop on an accumulator is the loop from empty.\<close>

lemma generate_until_loop_acc:
  "generate_until_loop pt rs results lg =
     (case generate_until_loop pt rs [] [] of
        (Inl e, lg') \<Rightarrow> (Inl e, lg @ lg')
      | (Inr outs, lg') \<Rightarrow> (Inr (results @ outs), lg @ lg'))"
proof (induction rs arbitrary: results lg)
  case Nil
  show ?case by simp
next
  case (Cons r rs)
  show ?case
  proof (cases "generate_until_body pt r")
    case (Pair res lg1)
    show ?thesis
    proof (cases res)
      case (Inl e)
      with Pair show ?thesis by simp
    next
      case (Inr s)
      with Pair show ?thesis
        using Cons.IH [of "results @ [s]" "lg @ lg1"] Cons.IH [of "[s]" "lg1"]
        by (simp split: prod.splits sum.splits)
    qed
  qed
qed

text \<open>
  When the loop returns, it has appended one string for each request, in the order of
  the requests: the string its body gives for that request.
\<close>

lemma generate_until_loop_returns:
  "fst (generate_until_loop pt rs results lg) = Inr outs \<Longrightarrow>
     length outs = length results + length rs
     \<and> take (length results) outs = results
     \<and> (\<forall>i < length rs.
           fst (generate_until_body pt (rs ! i)) = Inr (outs ! (length results + i)))"
proof (induction rs arbitrary: results lg)
  case Nil
  then show ?case by simp
next
  case (Cons r rs)
  obtain res lg1 where body: "generate_until_body pt r = (res, lg1)"
    by (cases "generate_until_body pt r")
  show ?case
  proof (cases res)
    case (Inl e)
    with body Cons.prems show ?thesis by simp
  next
    case (Inr s)
    with body Cons.prems
    have rest: "fst (generate_until_loop pt rs (results @ [s]) (lg @ lg1)) = Inr outs"
      by simp
    note ih = Cons.IH [OF rest]
    from ih have len: "length outs = length results + length (r # rs)" by simp
    from ih have tk1: "take (Suc (length results)) outs = results @ [s]" by simp
    have "take (length results) (take (Suc (length results)) outs) = take (length results) outs"
      by simp
    with tk1 have tk: "take (length results) outs = results" by simp
    have "(take (Suc (length results)) outs) ! length results = outs ! length results"
      by simp
    with tk1 have at: "outs ! length results = s" by simp
    have "fst (generate_until_body pt ((r # rs) ! i)) = Inr (outs ! (length results + i))"
      if "i < length (r # rs)" for i
    proof (cases i)
      case 0
      with body Inr at show ?thesis by simp
    next
      case (Suc j)
      with that ih show ?thesis by simp
    qed
    with len tk show ?thesis by blast
  qed
qed

lemma generate_until_returns:
  "fst (generate_until self rs) = Inr outs \<Longrightarrow>
     length outs = length rs
     \<and> (\<forall>i < length rs.
           fst (generate_until_body (priv_parent_tasks self) (rs ! i)) = Inr (outs ! i))"
  using generate_until_loop_returns [of "priv_parent_tasks self" rs "[]" "[]" outs]
  by (simp add: generate_until_def)

text \<open>
  The call returns whenever the loop body raises on none of the requests. The body raises
  in \<^verbatim>\<open>len(args)\<close>, in the membership test, in the lookups of the task, the split
  and the document, and where the \<^verbatim>\<open>except\<close> clause does not catch or raises itself.
\<close>

lemma generate_until_loop_total:
  "\<forall>r \<in> set rs. \<exists>s. fst (generate_until_body pt r) = Inr s \<Longrightarrow>
     \<exists>outs lg'. generate_until_loop pt rs results lg = (Inr outs, lg')"
proof (induction rs arbitrary: results lg)
  case Nil
  show ?case by simp
next
  case (Cons r rs)
  from Cons.prems obtain s where "fst (generate_until_body pt r) = Inr s"
    by auto
  then obtain lg1 where body: "generate_until_body pt r = (Inr s, lg1)"
    by (cases "generate_until_body pt r") simp
  from Cons.prems have "\<forall>r \<in> set rs. \<exists>s. fst (generate_until_body pt r) = Inr s"
    by simp
  from Cons.IH [OF this, of "results @ [s]" "lg @ lg1"] body
  show ?case by simp
qed

lemma generate_until_position:
  assumes "fst (generate_until self (before @ r # rest)) = Inr outs"
  shows "fst (generate_until_body (priv_parent_tasks self) r) = Inr (outs ! length before)"
    and "\<forall>j < length rest.
           fst (generate_until_body (priv_parent_tasks self) (rest ! j)) =
             Inr (outs ! (Suc (length before) + j))"
proof -
  let ?pt = "priv_parent_tasks self"
  let ?rs = "before @ r # rest"
  from generate_until_returns [OF assms]
  have all: "\<And>i. i < length ?rs \<Longrightarrow> fst (generate_until_body ?pt (?rs ! i)) = Inr (outs ! i)"
    by blast
  from all [of "length before"]
  show "fst (generate_until_body ?pt r) = Inr (outs ! length before)"
    by simp
  show "\<forall>j < length rest.
          fst (generate_until_body ?pt (rest ! j)) = Inr (outs ! (Suc (length before) + j))"
  proof (intro allI impI)
    fix j
    assume "j < length rest"
    with all [of "Suc (length before) + j"]
    show "fst (generate_until_body ?pt (rest ! j)) = Inr (outs ! (Suc (length before) + j))"
      by (simp add: nth_append)
  qed
qed

text \<open>The loop body on a request that reaches a document: the \<^verbatim>\<open>try\<close> statement.\<close>

lemma body_document:
  assumes "dict_getitem pt task = Inr belong_to_task"
    and "dict_getitem (dataset belong_to_task) split = Inr docs"
    and "list_getitem docs doc_id = Inr doc"
  shows "generate_until_body pt (Instance [a0, a1, a2, doc_id, task, split]) =
           (case try_block belong_to_task doc doc_id task of
              (Inr s, lg) \<Rightarrow> (Inr s, lg)
            | (Inl e, lg) \<Rightarrow> except_clause e lg doc_id task)"
  using assms dict_getitem_contains [OF assms(1)]
  by (simp add: generate_until_body_def)

lemma body_malformed:
  "length args \<noteq> 6 \<Longrightarrow>
     generate_until_body pt (Instance args) =
       (Inr '''', [(ERROR, UnexpectedArgumentsLength (length args))])"
  by (simp add: generate_until_body_def)

lemma body_no_arguments:
  "generate_until_body pt (NoArguments ty) = (Inr '''', [(ERROR, UnknownRequestFormat ty)])"
  by (simp add: generate_until_body_def)

lemma body_unknown_task:
  "name \<notin> set (keys pt) \<Longrightarrow>
     generate_until_body pt (Instance [a0, a1, a2, doc_id, PyStr name, split]) =
       (Inr '''', [(ERROR, TaskNotFound (PyStr name) (keys pt))])"
  by (simp add: generate_until_body_def)

lemma after_call_fixed:
  "priv_rank (after_call self c) = priv_rank self
   \<and> priv_world_size (after_call self c) = priv_world_size self"
  by (cases c) (simp_all add: set_parent_tasks_def)

lemma after_calls_fixed:
  "priv_rank (foldl after_call self cs) = priv_rank self
   \<and> priv_world_size (foldl after_call self cs) = priv_world_size self"
  by (induction cs arbitrary: self) (simp_all add: after_call_fixed)

subsection \<open>The claims\<close>

text \<open>
  C1: a request whose task is registered and whose split is absent from the task's dataset,
  or whose document index is out of range, should leave the empty string at its position.
  The code reads \<^verbatim>\<open>belong_to_task.dataset[split][doc_id]\<close> before its
  \<^verbatim>\<open>try\<close> statement: on the configured instance \<open>model_T\<close> (task \<^verbatim>\<open>T\<close>, split
  \<^verbatim>\<open>test\<close>, five documents) a request for document 7, for document -6 or for the
  split \<^verbatim>\<open>validation\<close> makes \<^verbatim>\<open>generate_until\<close> raise \<^verbatim>\<open>IndexError\<close> or
  \<^verbatim>\<open>KeyError\<close>, with no result and no diagnostic.
\<close>

theorem lookup_failure_propagates:
  "generate_until model_T [request_for 7 ''T'' ''test''] = (Inl IndexError, [])
   \<and> generate_until model_T [request_for (- 6) ''T'' ''test''] = (Inl IndexError, [])
   \<and> generate_until model_T [request_for 3 ''T'' ''validation''] =
       (Inl (KeyError (PyStr ''validation'')), [])"
  by (simp add: example_defs)

text \<open>
  C2: \<^verbatim>\<open>generate_until\<close> should return one string for each request, in order, for
  every batch. On \<open>model_T\<close> the batch of three requests for documents 3, 7 and 3 of split
  \<^verbatim>\<open>test\<close> returns no list at all: the second request raises \<^verbatim>\<open>IndexError\<close>
  and the answers of the other two are lost.
\<close>

theorem batch_aborted_by_lookup_failure:
  "generate_until model_T
     [request_for 3 ''T'' ''test'', request_for 7 ''T'' ''test'', request_for 3 ''T'' ''test''] =
     (Inl IndexError, [])
   \<and> (\<nexists>outs. fst (generate_until model_T
          [request_for 3 ''T'' ''test'', request_for 7 ''T'' ''test'',
           request_for 3 ''T'' ''test'']) = Inr outs)"
  by (simp add: example_defs)

text \<open>
  C3, as amended: a request whose attribute \<^verbatim>\<open>arguments\<close> is a sized sequence of
  other than 6 elements, or that has no attribute \<^verbatim>\<open>arguments\<close>, gets the empty
  string and an error record (the length found, or the type of the request), and the loop
  goes on with the following requests from the results with that empty string appended.
  In a batch that returns, the empty string is at the position of the request and every
  later position holds what the loop body gives for the request there. The two guards of
  the code are \<^verbatim>\<open>hasattr(request, 'arguments')\<close> and \<^verbatim>\<open>len(args) == 6\<close>; a
  request whose attribute has no length is outside this statement.
\<close>

theorem malformed_request_sentinel:
  assumes "length args \<noteq> 6"
  shows "generate_until_body pt (Instance args) =
           (Inr '''', [(ERROR, UnexpectedArgumentsLength (length args))])
       \<and> generate_until_body pt (NoArguments ty) =
           (Inr '''', [(ERROR, UnknownRequestFormat ty)])
       \<and> generate_until_loop pt (Instance args # requests) results lg =
           generate_until_loop pt requests (results @ [''''])
             (lg @ [(ERROR, UnexpectedArgumentsLength (length args))])
       \<and> generate_until_loop pt (NoArguments ty # requests) results lg =
           generate_until_loop pt requests (results @ [''''])
             (lg @ [(ERROR, UnknownRequestFormat ty)])
       \<and> (fst (generate_until self (before @ Instance args # rest)) = Inr outs \<longrightarrow>
            outs ! length before = ''''
            \<and> (\<forall>j < length rest.
                 fst (generate_until_body (priv_parent_tasks self) (rest ! j)) =
                   Inr (outs ! (Suc (length before) + j))))
       \<and> (fst (generate_until self (before @ NoArguments ty # rest)) = Inr outs' \<longrightarrow>
            outs' ! length before = ''''
            \<and> (\<forall>j < length rest.
                 fst (generate_until_body (priv_parent_tasks self) (rest ! j)) =
                   Inr (outs' ! (Suc (length before) + j))))"
proof -
  note a = body_malformed [OF assms]
  have "outs ! length before = []"
    if "fst (generate_until self (before @ Instance args # rest)) = Inr outs"
    using generate_until_position(1) [OF that] by (simp add: a)
  moreover have "outs' ! length before = []"
    if "fst (generate_until self (before @ NoArguments ty # rest)) = Inr outs'"
    using generate_until_position(1) [OF that] by (simp add: body_no_arguments)
  ultimately show ?thesis
    using generate_until_position(2) by (simp add: a body_no_arguments) blast
qed

theorem malformed_request_sentinel_witness:
  "length [PyStr ''ctx'', PyInt 3, PyStr ''T'', PyStr ''test''] \<noteq> 6
   \<and> generate_until model_T
       [request_for 0 ''T'' ''test'',
        Instance [PyStr ''ctx'', PyInt 3, PyStr ''T'', PyStr ''test''],
        request_for 3 ''T'' ''test''] =
       (Inr [''cat'', '''', ''cat''], [(ERROR, UnexpectedArgumentsLength 4)])
   \<and> generate_until model_T
       [request_for 0 ''T'' ''test'', NoArguments ''str'', request_for 3 ''T'' ''test''] =
       (Inr [''cat'', '''', ''cat''], [(ERROR, UnknownRequestFormat ''str'')])"
  using malformed_request_sentinel
    [of "[PyStr ''ctx'', PyInt 3, PyStr ''T'', PyStr ''test'']" registry_T "''str''"
        "[request_for 3 ''T'' ''test'']" "[''cat'']" "[]" model_T
        "[request_for 0 ''T'' ''test'']" "[request_for 3 ''T'' ''test'']"
        "[''cat'', '''', ''cat'']" "[''cat'', '''', ''cat'']"]
  by (simp add: example_defs)

text \<open>
  C3 as stated fails on a request that exposes no argument tuple because its attribute
  \<^verbatim>\<open>arguments\<close> is \<^verbatim>\<open>None\<close>: \<^verbatim>\<open>len(args)\<close> raises \<^verbatim>\<open>TypeError\<close>,
  no empty string is appended, nothing is logged and the request after it is not resolved.
\<close>

theorem unsized_arguments_abort:
  "generate_until model_T [UnsizedArguments ''NoneType'', request_for 3 ''T'' ''test''] =
     (Inl TypeError, [])
   \<and> generate_until_body registry_T (UnsizedArguments ''NoneType'') \<noteq>
       (Inr '''', [(ERROR, UnknownRequestFormat ''NoneType'')])"
  by (simp add: example_defs)

text \<open>
  C4: a request whose task name is not a key of the registry gets the empty string and an
  error record that lists the keys of the registry; the loop body raises nothing and the
  loop goes on with the following requests. In a batch that returns, the empty string is
  at the position of the request.
\<close>

theorem unknown_task_sentinel:
  assumes "name \<notin> set (keys pt)"
  shows "generate_until_body pt (Instance [a0, a1, a2, doc_id, PyStr name, split]) =
           (Inr '''', [(ERROR, TaskNotFound (PyStr name) (keys pt))])
       \<and> generate_until_loop pt
           (Instance [a0, a1, a2, doc_id, PyStr name, split] # requests) results lg =
           generate_until_loop pt requests (results @ [''''])
             (lg @ [(ERROR, TaskNotFound (PyStr name) (keys pt))])
       \<and> (priv_parent_tasks self = pt
            \<and> fst (generate_until self
                  (before @ Instance [a0, a1, a2, doc_id, PyStr name, split] # rest)) = Inr outs
            \<longrightarrow> outs ! length before = '''')"
proof -
  note b = body_unknown_task [OF assms]
  have "outs ! length before = []"
    if "priv_parent_tasks self = pt"
      and "fst (generate_until self
             (before @ Instance [a0, a1, a2, doc_id, PyStr name, split] # rest)) = Inr outs"
    using generate_until_position(1) [OF that(2)] that(1) by (simp add: b)
  then show ?thesis
    by (simp add: b)
qed

theorem unknown_task_sentinel_witness:
  "''unknown_task'' \<notin> set (keys registry_T)
   \<and> keys registry_T = [''T'']
   \<and> generate_until model_T
       [request_for 3 ''unknown_task'' ''test'', request_for 3 ''T'' ''test''] =
       (Inr ['''', ''cat''], [(ERROR, TaskNotFound (PyStr ''unknown_task'') [''T''])])"
  using unknown_task_sentinel
    [of "''unknown_task''" registry_T "PyStr ''ctx''" "PyUnhashable ''gen_kwargs''"
        "PyObj ''doc_to_visual''" "PyInt 3" "PyStr ''test''" "[request_for 3 ''T'' ''test'']"
        "[]" "[]" model_T "[]" "[request_for 3 ''T'' ''test'']" "['''', ''cat'']"]
  by (simp add: example_defs)

text \<open>
  C5, as amended: for a request whose lookup succeeds (with a document, or with the list
  of documents a slice selects), the string appended is made from the value
  \<^verbatim>\<open>doc_to_answer\<close> returns: the empty string for \<^verbatim>\<open>None\<close> (with a warning
  record of its own) and for an empty \<^verbatim>\<open>list\<close>; for a non-empty instance of
  \<^verbatim>\<open>list\<close> its first element when that is a string, in general the string
  conversion of the first element; and for any other value, a tuple or another sequence
  that is no \<^verbatim>\<open>list\<close> included, the string conversion of the whole value.
\<close>

theorem answer_normalized:
  assumes "dict_getitem pt task = Inr belong_to_task"
    and "dict_getitem (dataset belong_to_task) split = Inr docs"
    and "list_getitem docs doc_id = Inr doc"
    and "doc_to_answer belong_to_task doc = Inr answer"
  shows "(answer = AnswerNone \<longrightarrow>
            generate_until_body pt (Instance [a0, a1, a2, doc_id, task, split]) =
              (Inr '''', [(WARNING, AnswerIsNone doc_id task)]))
       \<and> (answer = AnswerList [] \<longrightarrow>
            generate_until_body pt (Instance [a0, a1, a2, doc_id, task, split]) = (Inr '''', []))
       \<and> (answer = AnswerList (Str s # xs) \<longrightarrow>
            generate_until_body pt (Instance [a0, a1, a2, doc_id, task, split]) = (Inr s, []))
       \<and> (answer = AnswerList (x # xs) \<and> py_str x = Inr s \<longrightarrow>
            generate_until_body pt (Instance [a0, a1, a2, doc_id, task, split]) = (Inr s, []))
       \<and> (answer = AnswerTuple ys (Inr s) \<longrightarrow>
            generate_until_body pt (Instance [a0, a1, a2, doc_id, task, split]) = (Inr s, []))
       \<and> (answer = AnswerOther v \<and> py_str v = Inr s \<longrightarrow>
            generate_until_body pt (Instance [a0, a1, a2, doc_id, task, split]) = (Inr s, []))"
  using assms(4) by (simp add: body_document [OF assms(1-3)] try_block_def)

theorem answer_normalized_witness:
  "generate_until model_T
     [request_for 0 ''T'' ''test'', request_for 1 ''T'' ''test'', request_for 2 ''T'' ''test'',
      request_for 3 ''T'' ''test''] =
     (Inr [''cat'', '''', '''', ''cat''], [(WARNING, AnswerIsNone (PyInt 2) (PyStr ''T''))])
   \<and> generate_until_body registry_T (request_for 0 ''T'' ''test'') = (Inr ''cat'', [])
   \<and> generate_until_body registry_T (request_for 1 ''T'' ''test'') = (Inr '''', [])
   \<and> generate_until_body registry_T (request_for 2 ''T'' ''test'') =
       (Inr '''', [(WARNING, AnswerIsNone (PyInt 2) (PyStr ''T''))])
   \<and> generate_until_body registry_T (request_for 3 ''T'' ''test'') = (Inr ''cat'', [])
   \<and> generate_until_body registry_F (request_for 0 ''F'' ''test'') =
       (Inr ''('cat', 'dog')'', [])"
proof -
  let ?docs = "[Inr (AnswerList [Str ''cat'', Str ''dog'']), Inr (AnswerList []),
                Inr AnswerNone, Inr (AnswerOther (Str ''cat'')), Inl (Raised ''boom'')]"
  let ?faults = "[Inr (AnswerTuple [Str ''cat'', Str ''dog''] (Inr ''('cat', 'dog')'')),
                  Inl (BaseRaised ''KeyboardInterrupt''),
                  Inl (RaisedUnprintable (Raised ''no text''))]"
  have t: "dict_getitem registry_T (PyStr ''T'') = Inr stored_answers"
    by (simp add: registry_T_def)
  have d: "dict_getitem (dataset stored_answers) (PyStr ''test'') = Inr ?docs"
    by (simp add: stored_answers_def)
  have d0: "list_getitem ?docs (PyInt 0) = Inr (Row (Inr (AnswerList [Str ''cat'', Str ''dog''])))"
    and d1: "list_getitem ?docs (PyInt 1) = Inr (Row (Inr (AnswerList [])))"
    and d2: "list_getitem ?docs (PyInt 2) = Inr (Row (Inr AnswerNone))"
    and d3: "list_getitem ?docs (PyInt 3) = Inr (Row (Inr (AnswerOther (Str ''cat''))))"
    by (simp_all add: list_index_def)
  have a0: "doc_to_answer stored_answers (Row (Inr (AnswerList [Str ''cat'', Str ''dog'']))) =
              Inr (AnswerList [Str ''cat'', Str ''dog''])"
    and a1: "doc_to_answer stored_answers (Row (Inr (AnswerList []))) = Inr (AnswerList [])"
    and a2: "doc_to_answer stored_answers (Row (Inr AnswerNone)) = Inr AnswerNone"
    and a3: "doc_to_answer stored_answers (Row (Inr (AnswerOther (Str ''cat'')))) =
               Inr (AnswerOther (Str ''cat''))"
    by (simp_all add: stored_answers_def stored_outcome_def)
  have tf: "dict_getitem registry_F (PyStr ''F'') = Inr stored_faults"
    by (simp add: registry_F_def)
  have df: "dict_getitem (dataset stored_faults) (PyStr ''test'') = Inr ?faults"
    by (simp add: stored_faults_def)
  have f0: "list_getitem ?faults (PyInt 0) =
              Inr (Row (Inr (AnswerTuple [Str ''cat'', Str ''dog''] (Inr ''('cat', 'dog')''))))"
    by (simp add: list_index_def)
  have b0: "doc_to_answer stored_faults
              (Row (Inr (AnswerTuple [Str ''cat'', Str ''dog''] (Inr ''('cat', 'dog')'')))) =
              Inr (AnswerTuple [Str ''cat'', Str ''dog''] (Inr ''('cat', 'dog')''))"
    by (simp add: stored_faults_def stored_outcome_def)
  have "generate_until_body registry_T (request_for 0 ''T'' ''test'') = (Inr ''cat'', [])"
    using answer_normalized [OF t d d0 a0, where s = "''cat''" and xs = "[Str ''dog'']"
        and x = "Str ''cat''"]
    by (simp add: request_for_def)
  moreover
  have "generate_until_body registry_T (request_for 1 ''T'' ''test'') = (Inr '''', [])"
    using answer_normalized [OF t d d1 a1] by (simp add: request_for_def)
  moreover
  have "generate_until_body registry_T (request_for 2 ''T'' ''test'') =
          (Inr '''', [(WARNING, AnswerIsNone (PyInt 2) (PyStr ''T''))])"
    using answer_normalized [OF t d d2 a2] by (simp add: request_for_def)
  moreover
  have "generate_until_body registry_T (request_for 3 ''T'' ''test'') = (Inr ''cat'', [])"
    using answer_normalized [OF t d d3 a3, where v = "Str ''cat''" and s = "''cat''"]
    by (simp add: request_for_def)
  moreover
  have "generate_until_body registry_F (request_for 0 ''F'' ''test'') =
          (Inr ''('cat', 'dog')'', [])"
    using answer_normalized [OF tf df f0 b0, where ys = "[Str ''cat'', Str ''dog'']"
        and s = "''('cat', 'dog')''"]
    by (simp add: request_for_def)
  ultimately show ?thesis
    by (simp add: model_T_def init_def set_parent_tasks_def generate_until_def)
qed

text \<open>
  C5 as stated fails on an ordered sequence that is no instance of \<^verbatim>\<open>list\<close>: for
  the tuple \<^verbatim>\<open>('cat', 'dog')\<close> the code tests \<^verbatim>\<open>isinstance(answer, list)\<close>,
  finds it false and appends the string conversion of the whole tuple, not its first
  element \<^verbatim>\<open>cat\<close>.
\<close>

theorem tuple_answer_not_first_element:
  "generate_until model_F [request_for 0 ''F'' ''test''] = (Inr [''('cat', 'dog')''], [])
   \<and> fst (generate_until model_F [request_for 0 ''F'' ''test'']) \<noteq> Inr [''cat'']"
  by (simp add: example_defs)




text \<open>
  C9: \<^verbatim>\<open>set_parent_tasks\<close> stores the registry it is given, whatever it holds, in
  place of the one before: after two calls the instance holds the second registry, it is
  the instance one call with the second registry gives, and \<^verbatim>\<open>generate_until\<close> and
  \<^verbatim>\<open>generate_until_multi_round\<close> run their loop on the second registry alone.
\<close>

theorem set_parent_tasks_last_wins:
  "priv_parent_tasks (fst (set_parent_tasks (fst (set_parent_tasks self first)) second)) = second
   \<and> fst (set_parent_tasks (fst (set_parent_tasks self first)) second) =
       fst (set_parent_tasks self second)
   \<and> generate_until (fst (set_parent_tasks (fst (set_parent_tasks self first)) second)) requests =
       generate_until_loop second requests [] []
   \<and> generate_until_multi_round
         (fst (set_parent_tasks (fst (set_parent_tasks self first)) second)) requests =
       generate_until_loop second requests [] []"
  by (simp add: set_parent_tasks_def generate_until_def generate_until_multi_round_def)

text \<open>
  C10: an instance built by the constructor, with any batch size and any keyword
  arguments, reports rank 0 and world size 1, and still does after any sequence of calls
  of its operations.
\<close>

theorem rank_world_size_fixed:
  "rank (fst (init n kwargs)) = 0
   \<and> world_size (fst (init n kwargs)) = 1
   \<and> rank (foldl after_call (fst (init n kwargs)) calls) = 0
   \<and> world_size (foldl after_call (fst (init n kwargs)) calls) = 1"
  by (simp add: rank_def world_size_def after_calls_fixed) (simp add: init_def)

text \<open>
  C7: the likelihood-scoring operation \<^verbatim>\<open>loglikelihood\<close> fails with
  \<^verbatim>\<open>NotImplementedError\<close> on every instance and every list of requests, the empty
  one included, and returns no result.
\<close>

theorem loglikelihood_unsupported:
  "(\<exists>msg. fst (loglikelihood self requests) = Inl (NotImplementedError msg))
   \<and> (\<exists>msg. fst (loglikelihood self []) = Inl (NotImplementedError msg))
   \<and> (\<nexists>r. fst (loglikelihood self requests) = Inr r)"
  by (simp add: loglikelihood_def)

text \<open>
  C8: \<^verbatim>\<open>generate_until_multi_round\<close> returns, and logs, exactly what
  \<^verbatim>\<open>generate_until\<close> does, on every instance (so every registry) and every batch.
\<close>

theorem generate_until_multi_round_delegates:
  "generate_until_multi_round self requests = generate_until self requests"
  by (simp add: generate_until_multi_round_def)

end
